theory Spec2Isabelle
  imports Main
begin

unbundle bit_operations_syntax

section \<open>Bytes, little-endian fields and the block checksum\<close>

text \<open>
  The engine (src/UDBE/udb_btree.cpp, udb_common.h, udb_file.cpp) treats every node and
  leaf as a byte buffer (\<open>std::vector<uint8_t>\<close>) whose fields are reached by pointer
  arithmetic over packed structures.  The model keeps that view: a block is a list of
  bytes, a field is a little-endian slice of it, and the index file is one list of bytes
  with a stream position.  A byte is a natural number below 256 (\<open>bytes_ok\<close>); every
  store into a byte reduces modulo 256.  Values of type \<open>int64_t\<close> are modelled as
  \<open>int\<close>, values of type \<open>uint16_t\<close> as \<open>nat\<close>, with the two's-complement and
  truncation steps written out where a value is stored into or loaded from bytes.
\<close>

type_synonym u8 = nat
type_synonym block = "u8 list"

definition bytes_ok :: "block \<Rightarrow> bool" where
  "bytes_ok b \<longleftrightarrow> list_all (\<lambda>x. x < 256) b"

text \<open>A byte read through a pointer; reading past the modelled buffer yields 0.\<close>

definition byte0 :: "block \<Rightarrow> u8" where
  "byte0 p = (case p of [] \<Rightarrow> 0 | b # _ \<Rightarrow> b)"

definition byte_at :: "block \<Rightarrow> nat \<Rightarrow> u8" where
  "byte_at p i = (if i < length p then p ! i else 0)"

text \<open>The \<open>n\<close> bytes a \<open>memcpy\<close> or a fixed-width load takes from a pointer.\<close>

definition fixk :: "nat \<Rightarrow> block \<Rightarrow> block" where
  "fixk n p = take n (p @ replicate n 0)"

text \<open>
  Overwrite \<open>bs\<close> into buffer \<open>b\<close> at offset \<open>off\<close>.  The buffer keeps its size: a
  store past its end (undefined behaviour in the source) is cut off.
\<close>

definition put_bytes :: "block \<Rightarrow> nat \<Rightarrow> block \<Rightarrow> block" where
  "put_bytes b off bs = take (length b) (take off b @ bs @ drop (off + length bs) b)"

fun le_nat :: "block \<Rightarrow> nat" where
  "le_nat [] = 0"
| "le_nat (b # bs) = b + 256 * le_nat bs"

fun le_int :: "block \<Rightarrow> int" where
  "le_int [] = 0"
| "le_int (b # bs) = int b + 256 * le_int bs"

fun int_le :: "nat \<Rightarrow> int \<Rightarrow> block" where
  "int_le 0 v = []"
| "int_le (Suc n) v = nat (v mod 256) # int_le n (v div 256)"

definition to_signed :: "nat \<Rightarrow> int \<Rightarrow> int" where
  "to_signed bits v = (if v < 2 ^ (bits - 1) then v else v - 2 ^ bits)"

definition get_u16 :: "block \<Rightarrow> nat \<Rightarrow> nat" where
  "get_u16 b off = le_nat (fixk 2 (drop off b))"

definition put_u16 :: "block \<Rightarrow> nat \<Rightarrow> nat \<Rightarrow> block" where
  "put_u16 b off v = put_bytes b off (int_le 2 (int v mod 65536))"

definition get_i64 :: "block \<Rightarrow> nat \<Rightarrow> int" where
  "get_i64 b off = to_signed 64 (le_int (fixk 8 (drop off b)))"

definition put_i64 :: "block \<Rightarrow> nat \<Rightarrow> int \<Rightarrow> block" where
  "put_i64 b off v = put_bytes b off (int_le 8 (v mod 2 ^ 64))"

text \<open>\<open>calculateBlockChecksum\<close> (udb_common.h): XOR of the first \<open>blockSize\<close> bytes.\<close>

fun xor_bytes :: "u8 \<Rightarrow> block \<Rightarrow> u8" where
  "xor_bytes c [] = c"
| "xor_bytes c (b # bs) = xor_bytes (c XOR b) bs"

definition calculateBlockChecksum :: "block \<Rightarrow> nat \<Rightarrow> u8" where
  "calculateBlockChecksum blk blockSize = xor_bytes 0 (take blockSize blk)"

text \<open>
  \<open>setNodeChecksum\<close> / \<open>setLeaveChecksum\<close>: the checksum is the first byte of the
  header; it is zeroed, the block is summed, and the sum is stored.
\<close>

definition setBlockChecksum :: "nat \<Rightarrow> block \<Rightarrow> block" where
  "setBlockChecksum sz blk =
     (let b0 = put_bytes blk 0 [0]
      in put_bytes b0 0 [calculateBlockChecksum b0 sz])"

definition testBlockChecksum :: "nat \<Rightarrow> block \<Rightarrow> bool" where
  "testBlockChecksum sz blk \<longleftrightarrow> calculateBlockChecksum blk sz = 0"

section \<open>Key types and the comparator\<close>

datatype KeyType = VOID | BLOCK | NUM_BLOCK | INTEGER | LONG_INT | STRING | LOGICAL | CHARACTER

text \<open>The descriptor stores the key type as a \<open>uint16_t\<close>; \<open>getKeyType\<close> casts it back.\<close>

definition keyType_of_code :: "nat \<Rightarrow> KeyType option" where
  "keyType_of_code c =
     (if c = 0 then Some VOID else if c = 1 then Some BLOCK else if c = 2 then Some NUM_BLOCK
      else if c = 3 then Some INTEGER else if c = 4 then Some LONG_INT
      else if c = 5 then Some STRING else if c = 6 then Some LOGICAL
      else if c = 7 then Some CHARACTER else None)"

fun keyType_code :: "KeyType \<Rightarrow> nat" where
  "keyType_code VOID = 0"
| "keyType_code BLOCK = 1"
| "keyType_code NUM_BLOCK = 2"
| "keyType_code INTEGER = 3"
| "keyType_code LONG_INT = 4"
| "keyType_code STRING = 5"
| "keyType_code LOGICAL = 6"
| "keyType_code CHARACTER = 7"

text \<open>
  What \<open>compare\<close>, \<open>fillEOFKey\<close> and the block accessors read from the handle:
  the latched-error flag (\<open>hasError()\<close>) and the key-type code, key size and node
  capacity of the active index's descriptor.
\<close>

record key_ctx =
  kc_hasError :: bool
  kc_keyType :: nat
  kc_keySize :: nat
  kc_maxItems :: nat

text \<open>\<open>getKeyType()\<close> and \<open>getKeySize()\<close> answer VOID and 0 on a handle with an error.\<close>

definition getKeyType :: "key_ctx \<Rightarrow> KeyType option" where
  "getKeyType c = (if kc_hasError c then Some VOID else keyType_of_code (kc_keyType c))"

definition getKeySize :: "key_ctx \<Rightarrow> nat" where
  "getKeySize c = (if kc_hasError c then 0 else kc_keySize c)"

definition sign3 :: "bool \<Rightarrow> bool \<Rightarrow> int" where
  "sign3 gt lt = (if gt then 1 else if lt then -1 else 0)"

text \<open>\<open>std::memcmp\<close> over \<open>n\<close> bytes, reduced to its sign.\<close>

fun memcmp :: "nat \<Rightarrow> block \<Rightarrow> block \<Rightarrow> int" where
  "memcmp 0 a b = 0"
| "memcmp (Suc n) a b =
     (if byte0 a \<noteq> byte0 b then (if byte0 a > byte0 b then 1 else -1)
      else memcmp n (tl a) (tl b))"

text \<open>The NUM\_BLOCK loop: \<open>for (i = keySize - 1; i >= 0; --i)\<close>.\<close>

fun numcmp :: "nat \<Rightarrow> block \<Rightarrow> block \<Rightarrow> int" where
  "numcmp 0 a b = 0"
| "numcmp (Suc i) a b =
     (if byte_at a i \<noteq> byte_at b i then (if byte_at a i > byte_at b i then 1 else -1)
      else numcmp i a b)"

text \<open>
  \<open>std::strcmp\<close>, reduced to its sign: bytes are compared as unsigned chars up to the
  first NUL.  The end of the modelled buffer counts as a terminator.
\<close>

fun strcmp :: "block \<Rightarrow> block \<Rightarrow> int" where
  "strcmp [] [] = 0"
| "strcmp [] (b # bs) = (if b = 0 then 0 else -1)"
| "strcmp (a # as) [] = (if a = 0 then 0 else 1)"
| "strcmp (a # as) (b # bs) =
     (if a \<noteq> b then (if a > b then 1 else -1)
      else if a = 0 then 0 else strcmp as bs)"

text \<open>The loads \<open>*static_cast<const int16_t*>(key)\<close> and \<open>int32_t\<close>, little-endian.\<close>

definition get_i16 :: "block \<Rightarrow> int" where
  "get_i16 p = to_signed 16 (le_int (fixk 2 p))"

definition get_i32 :: "block \<Rightarrow> int" where
  "get_i32 p = to_signed 32 (le_int (fixk 4 p))"

text \<open>\<open>MultiIndex::compare\<close>; \<open>key1\<close> and \<open>key2\<close> are the bytes at the two pointers.\<close>

definition compare :: "key_ctx \<Rightarrow> block \<Rightarrow> block \<Rightarrow> int" where
  "compare c key1 key2 =
     (if kc_hasError c then 0
      else case getKeyType c of
        Some BLOCK \<Rightarrow> memcmp (getKeySize c) key1 key2
      | Some NUM_BLOCK \<Rightarrow> numcmp (getKeySize c) key1 key2
      | Some INTEGER \<Rightarrow> sign3 (get_i16 key1 > get_i16 key2) (get_i16 key1 < get_i16 key2)
      | Some LONG_INT \<Rightarrow> sign3 (get_i32 key1 > get_i32 key2) (get_i32 key1 < get_i32 key2)
      | Some STRING \<Rightarrow> strcmp key1 key2
      | Some LOGICAL \<Rightarrow>
          (let b1 = (byte0 key1 \<noteq> 0); b2 = (byte0 key2 \<noteq> 0)
           in sign3 (b1 \<and> \<not> b2) (\<not> b1 \<and> b2))
      | Some CHARACTER \<Rightarrow> sign3 (byte0 key1 > byte0 key2) (byte0 key1 < byte0 key2)
      | _ \<Rightarrow> 0)"

text \<open>
  \<open>MultiIndex::fillEOFKey\<close>: \<open>memset\<close> of \<open>getKeySize()\<close> bytes to 0xFF, then the
  per-type adjustment.  The function returns the key bytes it leaves at \<open>keyBlock\<close>.
  (With key size 0 the source stores outside the key; the model then stores nothing.)
\<close>

definition fillEOFKey :: "key_ctx \<Rightarrow> block" where
  "fillEOFKey c =
     (let n = getKeySize c; k = replicate n (255 :: u8)
      in case getKeyType c of
           Some STRING \<Rightarrow> (if n = 0 then k else k[n - 1 := 0])
         | Some NUM_BLOCK \<Rightarrow> (if n = 0 then k else k[0 := (k ! 0) AND 127])
         | Some INTEGER \<Rightarrow> (if n = 0 then k else k[0 := (k ! 0) AND 127])
         | Some LONG_INT \<Rightarrow> (if n = 0 then k else k[n - 1 := (k ! (n - 1)) AND 127])
         | _ \<Rightarrow> k)"

section \<open>Raw block I/O and the checksum boundary\<close>

datatype ErrorCode =
  OK | ERROR | READ_ERROR | WRITE_ERROR | SEEK_ERROR | BAD_DATA | MEMORY_ERROR
  | POINTER_ERROR | BAD_FILE_DATA | BAD_FILE_HANDLE | CREATE_ERROR | GET_FILE_SIZE
  | OPEN_ERROR | CLOSE_ERROR | GET_FILE_POS | INIT_ERROR

definition INVALID_POSITION :: int where
  "INVALID_POSITION = -1"

text \<open>
  The \<open>File\<close> base class at the level of bytes: the content of the file, the position
  of its stream and the latched error code (\<open>m_errorCode\<close>).  An operation returns
  \<open>Some\<close> result, or \<open>None\<close> when it leaves by a C++ exception, together with the state
  it leaves behind.
\<close>

record raw_file =
  rf_bytes :: block
  rf_pos :: int
  rf_error :: ErrorCode

text \<open>
  \<open>File::write\<close> and \<open>File::read\<close> (udb\_file.cpp).  A position of
  \<open>INVALID_POSITION\<close> means "at the current stream position"; any other negative
  position makes the seek, and with it the transfer, fail.  A write past the end fills
  the gap with zeros; a read past the end is short and leaves the rest of the buffer as
  it was (the source ignores the byte count and clears the EOF flag).
\<close>

definition File_write :: "block \<Rightarrow> nat \<Rightarrow> int \<Rightarrow> raw_file \<Rightarrow> unit option \<times> raw_file" where
  "File_write buffer sz pos f =
     (if pos \<noteq> INVALID_POSITION \<and> pos < 0 then (None, f\<lparr>rf_error := WRITE_ERROR\<rparr>)
      else
        let p = nat (if pos = INVALID_POSITION then rf_pos f else pos);
            b = rf_bytes f;
            b' = (if length b < p then b @ replicate (p - length b) 0 else b)
        in (Some (), f\<lparr>rf_bytes := take p b' @ fixk sz buffer @ drop (p + sz) b',
                        rf_pos := int p + int sz\<rparr>))"

definition File_read :: "block \<Rightarrow> nat \<Rightarrow> int \<Rightarrow> raw_file \<Rightarrow> block option \<times> raw_file" where
  "File_read buffer sz pos f =
     (if pos \<noteq> INVALID_POSITION \<and> pos < 0 then (None, f\<lparr>rf_error := READ_ERROR\<rparr>)
      else
        let p = nat (if pos = INVALID_POSITION then rf_pos f else pos);
            got = take sz (drop p (rf_bytes f))
        in (Some (put_bytes buffer 0 got), f\<lparr>rf_pos := int p + int (length got)\<rparr>))"

text \<open>
  The sizes of the packed blocks, as the \<open>uint16_t\<close> results of \<open>getItemSize\<close>,
  \<open>getNodeSize\<close> and \<open>getLeaveSize\<close>:
  \<open>NodeHeader {uint8 checksum; uint16 numUsed; int64 nextNode; int64 prevNode}\<close> is 19
  bytes and is followed by \<open>maxItems\<close> items of \<open>keySize + 8\<close> bytes;
  \<open>LeafHeader {uint8 checksum; int64 nextLeave; int64 prevLeave; int64 dataPos}\<close> is 25
  bytes and is followed by the key.
\<close>

definition getItemSize :: "key_ctx \<Rightarrow> nat" where
  "getItemSize c = (kc_keySize c + 8) mod 65536"

definition getNodeSize :: "key_ctx \<Rightarrow> nat" where
  "getNodeSize c = (getItemSize c * kc_maxItems c + 19) mod 65536"

definition getLeaveSize :: "key_ctx \<Rightarrow> nat" where
  "getLeaveSize c = (kc_keySize c + 25) mod 65536"

text \<open>
  \<open>readNode\<close>, \<open>writeNode\<close>, \<open>readLeave\<close> and \<open>writeLeave\<close> on the bytes.  The read
  resizes the caller's buffer to the block size, reads, and tests the checksum; on a
  mismatch it latches \<open>BAD_DATA\<close> (\<open>setError\<close>) and throws.  The write stores the
  checksum in the first byte and writes the block.
\<close>

definition readNode_bytes :: "key_ctx \<Rightarrow> block \<Rightarrow> int \<Rightarrow> raw_file \<Rightarrow> block option \<times> raw_file" where
  "readNode_bytes c node pos f =
     (let sz = getNodeSize c
      in case File_read (fixk sz node) sz pos f of
           (None, f') \<Rightarrow> (None, f')
         | (Some n, f') \<Rightarrow>
             if testBlockChecksum sz n then (Some n, f') else (None, f'\<lparr>rf_error := BAD_DATA\<rparr>))"

definition writeNode_bytes :: "key_ctx \<Rightarrow> block \<Rightarrow> int \<Rightarrow> raw_file \<Rightarrow> unit option \<times> raw_file" where
  "writeNode_bytes c node pos f =
     (let sz = getNodeSize c in File_write (setBlockChecksum sz node) sz pos f)"

definition readLeave_bytes :: "key_ctx \<Rightarrow> block \<Rightarrow> int \<Rightarrow> raw_file \<Rightarrow> block option \<times> raw_file" where
  "readLeave_bytes c leave pos f =
     (let sz = getLeaveSize c
      in case File_read (fixk sz leave) sz pos f of
           (None, f') \<Rightarrow> (None, f')
         | (Some l, f') \<Rightarrow>
             if testBlockChecksum sz l then (Some l, f') else (None, f'\<lparr>rf_error := BAD_DATA\<rparr>))"

definition writeLeave_bytes :: "key_ctx \<Rightarrow> block \<Rightarrow> int \<Rightarrow> raw_file \<Rightarrow> unit option \<times> raw_file" where
  "writeLeave_bytes c leave pos f =
     (let sz = getLeaveSize c in File_write (setBlockChecksum sz leave) sz pos f)"

section \<open>Blocks as the tree algorithms see them\<close>

text \<open>
  Above the checksum boundary the algorithms only use the header fields and the items
  of a block.  From here on a node is the record of its header fields and its
  \<open>maxItems\<close> item slots (key bytes and child position; slots past \<open>numUsed\<close> keep
  whatever was left in them), a leaf is the record of its header fields and its key,
  and the file is a store from block positions to blocks.  \<open>Corrupt\<close> stands for
  bytes whose checksum test fails.  The descriptor area at the start of the file only
  contributes its size.  The store covers accesses at the positions where blocks were
  written as a whole; \<open>createNodes\<close> and \<open>createLeaves\<close> hand out only such positions.
\<close>

type_synonym key = block

record node =
  n_numUsed :: nat
  n_nextNode :: int
  n_prevNode :: int
  n_items :: "(key \<times> int) list"

record leaf =
  l_nextLeave :: int
  l_prevLeave :: int
  l_dataPos :: int
  l_key :: key

datatype disk_block = NodeBlock node | LeafBlock leaf | Corrupt

definition allocateNodeBlock :: "key_ctx \<Rightarrow> node" where
  "allocateNodeBlock c =
     \<lparr>n_numUsed = 0, n_nextNode = 0, n_prevNode = 0,
      n_items = replicate (kc_maxItems c) (replicate (kc_keySize c) 0, 0)\<rparr>"

definition allocateLeaveBlock :: "key_ctx \<Rightarrow> leaf" where
  "allocateLeaveBlock c =
     \<lparr>l_nextLeave = 0, l_prevLeave = 0, l_dataPos = 0, l_key = replicate (kc_keySize c) 0\<rparr>"

definition getNumItems :: "node \<Rightarrow> nat" where
  "getNumItems nd = n_numUsed nd"

definition setNumItems :: "node \<Rightarrow> nat \<Rightarrow> node" where
  "setNumItems nd num = nd\<lparr>n_numUsed := num mod 65536\<rparr>"

definition getNextNode :: "node \<Rightarrow> int" where
  "getNextNode nd = n_nextNode nd"

definition setNextNode :: "node \<Rightarrow> int \<Rightarrow> node" where
  "setNextNode nd pos = nd\<lparr>n_nextNode := pos\<rparr>"

definition getPrevNode :: "node \<Rightarrow> int" where
  "getPrevNode nd = n_prevNode nd"

definition setPrevNode :: "node \<Rightarrow> int \<Rightarrow> node" where
  "setPrevNode nd pos = nd\<lparr>n_prevNode := pos\<rparr>"

text \<open>
  Item \<open>itemNo\<close> (1-based).  An item number outside the slots of the node is an access
  outside the buffer in the source; the model reads an empty key and position 0 there
  and drops a store.
\<close>

definition in_slots :: "node \<Rightarrow> nat \<Rightarrow> bool" where
  "in_slots nd itemNo \<longleftrightarrow> 0 < itemNo \<and> itemNo \<le> length (n_items nd)"

definition getNodeKey :: "node \<Rightarrow> nat \<Rightarrow> key" where
  "getNodeKey nd itemNo = (if in_slots nd itemNo then fst (n_items nd ! (itemNo - 1)) else [])"

definition getChildPos :: "node \<Rightarrow> nat \<Rightarrow> int" where
  "getChildPos nd itemNo = (if in_slots nd itemNo then snd (n_items nd ! (itemNo - 1)) else 0)"

text \<open>\<open>setNodeKey\<close>: \<open>memcpy\<close> of \<open>getKeySize()\<close> bytes over the key of the slot.\<close>

definition setNodeKey :: "key_ctx \<Rightarrow> node \<Rightarrow> nat \<Rightarrow> key \<Rightarrow> node" where
  "setNodeKey c nd itemNo k =
     (if in_slots nd itemNo
      then nd\<lparr>n_items := (n_items nd)[itemNo - 1 :=
                 (put_bytes (getNodeKey nd itemNo) 0 (fixk (getKeySize c) k), getChildPos nd itemNo)]\<rparr>
      else nd)"

definition setChildPos :: "node \<Rightarrow> nat \<Rightarrow> int \<Rightarrow> node" where
  "setChildPos nd itemNo pos =
     (if in_slots nd itemNo
      then nd\<lparr>n_items := (n_items nd)[itemNo - 1 := (getNodeKey nd itemNo, pos)]\<rparr>
      else nd)"

definition getNextLeave :: "leaf \<Rightarrow> int" where "getNextLeave lf = l_nextLeave lf"
definition setNextLeave :: "leaf \<Rightarrow> int \<Rightarrow> leaf" where "setNextLeave lf pos = lf\<lparr>l_nextLeave := pos\<rparr>"
definition getPrevLeave :: "leaf \<Rightarrow> int" where "getPrevLeave lf = l_prevLeave lf"
definition setPrevLeave :: "leaf \<Rightarrow> int \<Rightarrow> leaf" where "setPrevLeave lf pos = lf\<lparr>l_prevLeave := pos\<rparr>"
definition getDataPos :: "leaf \<Rightarrow> int" where "getDataPos lf = l_dataPos lf"
definition setDataPos :: "leaf \<Rightarrow> int \<Rightarrow> leaf" where "setDataPos lf pos = lf\<lparr>l_dataPos := pos\<rparr>"
definition getLeaveKey :: "leaf \<Rightarrow> key" where "getLeaveKey lf = l_key lf"

definition setLeaveKey :: "key_ctx \<Rightarrow> leaf \<Rightarrow> key \<Rightarrow> leaf" where
  "setLeaveKey c lf k = lf\<lparr>l_key := put_bytes (l_key lf) 0 (fixk (getKeySize c) k)\<rparr>"

text \<open>\<open>resetNode\<close> / \<open>resetLeave\<close>: zero the buffer, then set the links to \<open>INVALID_POSITION\<close>.\<close>

definition resetNode :: "node \<Rightarrow> node" where
  "resetNode nd =
     \<lparr>n_numUsed = 0, n_nextNode = INVALID_POSITION, n_prevNode = INVALID_POSITION,
      n_items = map (\<lambda>(k, _). (replicate (length k) 0, 0)) (n_items nd)\<rparr>"

definition resetLeave :: "leaf \<Rightarrow> leaf" where
  "resetLeave lf =
     \<lparr>l_nextLeave = INVALID_POSITION, l_prevLeave = INVALID_POSITION, l_dataPos = 0,
      l_key = replicate (length (l_key lf)) 0\<rparr>"

text \<open>
  \<open>std::memmove\<close> of \<open>cnt\<close> whole items from slot index \<open>src\<close> to slot index \<open>dest\<close>
  (0-based); the node keeps its number of slots.
\<close>

definition move_items :: "'a list \<Rightarrow> nat \<Rightarrow> nat \<Rightarrow> nat \<Rightarrow> 'a list" where
  "move_items xs dest src cnt =
     take (length xs) (take dest xs @ take cnt (drop src xs) @ drop (dest + cnt) xs)"

text \<open>\<open>MultiIndex::insertItem\<close>.\<close>

definition insertItem :: "key_ctx \<Rightarrow> node \<Rightarrow> nat \<Rightarrow> key \<Rightarrow> int \<Rightarrow> node" where
  "insertItem c nd itemNo k childPos =
     (if itemNo = 0 then nd
      else
        let numItems = getNumItems nd;
            nd1 = setNumItems nd (numItems + 1);
            insertAt = (if itemNo \<ge> numItems + 1 then (numItems + 1) mod 65536 else itemNo);
            nd2 = (if itemNo \<ge> numItems + 1 then nd1
                   else nd1\<lparr>n_items := move_items (n_items nd1) insertAt (insertAt - 1)
                                              (numItems - insertAt + 1)\<rparr>)
        in setChildPos (setNodeKey c nd2 insertAt k) insertAt childPos)"

text \<open>\<open>MultiIndex::deleteItem\<close>.\<close>

definition deleteItem :: "node \<Rightarrow> nat \<Rightarrow> node" where
  "deleteItem nd itemNo =
     (let numItems = getNumItems nd;
          nd1 = (if itemNo < numItems \<and> itemNo > 0
                 then nd\<lparr>n_items := move_items (n_items nd) (itemNo - 1) itemNo (numItems - itemNo)\<rparr>
                 else nd)
      in if numItems > 0 then setNumItems nd1 (numItems - 1) else nd1)"

section \<open>Binary search within a node\<close>

text \<open>
  \<open>MultiIndex::binarySearchNode\<close>.  \<open>left\<close>, \<open>right\<close> and \<open>mid\<close> are \<open>uint16_t\<close> in
  the source; they stay between 1 and \<open>numItems\<close>, so no step wraps.
\<close>

function binarySearch_loop :: "key_ctx \<Rightarrow> node \<Rightarrow> key \<Rightarrow> nat \<Rightarrow> nat \<Rightarrow> nat" where
  "binarySearch_loop c nd k left right =
     (if left < right then
        (let mid = left + (right - left) div 2
         in if compare c k (getNodeKey nd mid) \<le> 0
            then binarySearch_loop c nd k left mid
            else binarySearch_loop c nd k (mid + 1) right)
      else left)"
  by pat_completeness auto
termination
  by (relation "measure (\<lambda>(c, nd, k, left, right). right - left)") auto

definition binarySearchNode :: "key_ctx \<Rightarrow> node \<Rightarrow> key \<Rightarrow> nat \<Rightarrow> nat \<times> bool" where
  "binarySearchNode c nd k numItems =
     (if numItems = 0 then (1, False)
      else let left = binarySearch_loop c nd k 1 numItems
           in (left, compare c k (getNodeKey nd left) = 0))"

section \<open>The index handle\<close>

text \<open>\<open>IndexInfo\<close> (without its checksum byte) and \<open>PositionInfo\<close>.\<close>

record IndexInfo =
  ii_attributes :: nat
  ii_keyType :: nat
  ii_keySize :: nat
  ii_maxItems :: nat
  ii_freeCreateNodes :: int
  ii_freeCreateLeaves :: int
  ii_freeNode :: int
  ii_freeLeave :: int
  ii_numLevels :: nat
  ii_rootNode :: int
  ii_firstLeave :: int
  ii_lastLeave :: int

record PositionInfo =
  pi_state :: nat
  pi_currentLeave :: int
  pi_nextLeave :: int
  pi_prevLeave :: int
  pi_currentDataPos :: int

text \<open>
  The \<open>MultiIndex\<close> object with its \<open>File\<close> base: the block store, the size of the
  file and the position of its stream, the latched error code, the header's index
  count, the 0-based active index and the two vectors of descriptors and cursors.
\<close>

record MultiIndex =
  m_disk :: "int \<Rightarrow> disk_block option"
  m_fileSize :: int
  m_filePos :: int
  m_errorCode :: ErrorCode
  m_numIndexes :: nat
  m_currentIndex :: nat
  m_indexInfo :: "IndexInfo list"
  m_positions :: "PositionInfo list"

text \<open>
  An operation returns \<open>Some\<close> result, or \<open>None\<close> when it leaves by a C++ exception,
  together with the state it leaves behind.  Every \<open>throw\<close> of the source follows a
  store of the error code, so an exception always comes with the code latched.
\<close>

type_synonym 'a io = "MultiIndex \<Rightarrow> 'a option \<times> MultiIndex"

definition ret :: "'a \<Rightarrow> 'a io" where
  "ret x s = (Some x, s)"

definition throw :: "ErrorCode \<Rightarrow> 'a io" where
  "throw e s = (None, s\<lparr>m_errorCode := e\<rparr>)"

definition bindM :: "'a io \<Rightarrow> ('a \<Rightarrow> 'b io) \<Rightarrow> 'b io" where
  "bindM m f s = (case m s of (None, s') \<Rightarrow> (None, s') | (Some x, s') \<Rightarrow> f x s')"

definition gets :: "(MultiIndex \<Rightarrow> 'a) \<Rightarrow> 'a io" where
  "gets f s = (Some (f s), s)"

definition modify :: "(MultiIndex \<Rightarrow> MultiIndex) \<Rightarrow> unit io" where
  "modify f s = (Some (), f s)"

text \<open>
  Where the source would read an uninitialised local or pop an empty stack (undefined
  behaviour), or reads a position where no block was written, the model stops the
  operation without a result and without an error code.
\<close>

definition outside_model :: "'a io" where
  "outside_model s = (None, s)"

definition hasError :: "MultiIndex \<Rightarrow> bool" where
  "hasError s \<longleftrightarrow> m_errorCode s \<noteq> OK"

definition cur_info :: "MultiIndex \<Rightarrow> IndexInfo" where
  "cur_info s = m_indexInfo s ! m_currentIndex s"

definition upd_info :: "(IndexInfo \<Rightarrow> IndexInfo) \<Rightarrow> MultiIndex \<Rightarrow> MultiIndex" where
  "upd_info f s = s\<lparr>m_indexInfo := (m_indexInfo s)[m_currentIndex s := f (cur_info s)]\<rparr>"

definition cur_pos :: "MultiIndex \<Rightarrow> PositionInfo" where
  "cur_pos s = m_positions s ! m_currentIndex s"

definition upd_pos :: "(PositionInfo \<Rightarrow> PositionInfo) \<Rightarrow> MultiIndex \<Rightarrow> MultiIndex" where
  "upd_pos f s = s\<lparr>m_positions := (m_positions s)[m_currentIndex s := f (cur_pos s)]\<rparr>"

definition ctx_of :: "MultiIndex \<Rightarrow> key_ctx" where
  "ctx_of s = \<lparr>kc_hasError = hasError s, kc_keyType = ii_keyType (cur_info s),
               kc_keySize = ii_keySize (cur_info s), kc_maxItems = ii_maxItems (cur_info s)\<rparr>"

definition getFreeNode :: "MultiIndex \<Rightarrow> int" where "getFreeNode s = ii_freeNode (cur_info s)"
definition setFreeNode :: "int \<Rightarrow> MultiIndex \<Rightarrow> MultiIndex" where
  "setFreeNode pos = upd_info (\<lambda>i. i\<lparr>ii_freeNode := pos\<rparr>)"
definition getFreeLeave :: "MultiIndex \<Rightarrow> int" where "getFreeLeave s = ii_freeLeave (cur_info s)"
definition setFreeLeave :: "int \<Rightarrow> MultiIndex \<Rightarrow> MultiIndex" where
  "setFreeLeave pos = upd_info (\<lambda>i. i\<lparr>ii_freeLeave := pos\<rparr>)"
definition getRootNode :: "MultiIndex \<Rightarrow> int" where "getRootNode s = ii_rootNode (cur_info s)"
definition setRootNode :: "int \<Rightarrow> MultiIndex \<Rightarrow> MultiIndex" where
  "setRootNode pos = upd_info (\<lambda>i. i\<lparr>ii_rootNode := pos\<rparr>)"
definition getFirstLeave :: "MultiIndex \<Rightarrow> int" where "getFirstLeave s = ii_firstLeave (cur_info s)"
definition setFirstLeave :: "int \<Rightarrow> MultiIndex \<Rightarrow> MultiIndex" where
  "setFirstLeave pos = upd_info (\<lambda>i. i\<lparr>ii_firstLeave := pos\<rparr>)"
definition getLastLeave :: "MultiIndex \<Rightarrow> int" where "getLastLeave s = ii_lastLeave (cur_info s)"
definition setLastLeave :: "int \<Rightarrow> MultiIndex \<Rightarrow> MultiIndex" where
  "setLastLeave pos = upd_info (\<lambda>i. i\<lparr>ii_lastLeave := pos\<rparr>)"
definition getNumLevels :: "MultiIndex \<Rightarrow> nat" where "getNumLevels s = ii_numLevels (cur_info s)"
definition setNumLevels :: "nat \<Rightarrow> MultiIndex \<Rightarrow> MultiIndex" where
  "setNumLevels num = upd_info (\<lambda>i. i\<lparr>ii_numLevels := num\<rparr>)"
definition incNumLevels :: "MultiIndex \<Rightarrow> MultiIndex" where
  "incNumLevels = upd_info (\<lambda>i. i\<lparr>ii_numLevels := (ii_numLevels i + 1) mod 65536\<rparr>)"
definition decNumLevels :: "MultiIndex \<Rightarrow> MultiIndex" where
  "decNumLevels = upd_info (\<lambda>i. i\<lparr>ii_numLevels := (ii_numLevels i + 65535) mod 65536\<rparr>)"
definition getFreeCreateNodes :: "MultiIndex \<Rightarrow> int" where
  "getFreeCreateNodes s = ii_freeCreateNodes (cur_info s)"
definition getFreeCreateLeaves :: "MultiIndex \<Rightarrow> int" where
  "getFreeCreateLeaves s = ii_freeCreateLeaves (cur_info s)"
definition getMaxItems :: "MultiIndex \<Rightarrow> nat" where
  "getMaxItems s = ii_maxItems (cur_info s)"

text \<open>\<open>IndexAttribute\<close>: UNIQUE = 1, ALLOW\_DELETE = 2.\<close>

definition UNIQUE :: nat where "UNIQUE = 1"
definition ALLOW_DELETE :: nat where "ALLOW_DELETE = 2"

definition canDelete :: "MultiIndex \<Rightarrow> bool" where
  "canDelete s = (if hasError s then False else ii_attributes (cur_info s) AND ALLOW_DELETE \<noteq> 0)"

definition isUnique :: "MultiIndex \<Rightarrow> bool" where
  "isUnique s = (if hasError s then False else ii_attributes (cur_info s) AND UNIQUE \<noteq> 0)"

section \<open>File I/O on whole blocks\<close>

text \<open>
  \<open>File::size\<close>, \<open>seek\<close>, \<open>write\<close> and \<open>read\<close> for a whole block of \<open>sz\<close> bytes.  A
  position of \<open>INVALID_POSITION\<close> means "at the current stream position"; any other
  negative position makes the transfer fail.  After the transfer the stream stands
  behind the block.
\<close>

definition File_size :: "MultiIndex \<Rightarrow> int" where
  "File_size s = m_fileSize s"

definition File_seek :: "int \<Rightarrow> unit io" where
  "File_seek pos s = (if pos < 0 then throw SEEK_ERROR s else (Some (), s\<lparr>m_filePos := pos\<rparr>))"

definition write_block :: "disk_block \<Rightarrow> nat \<Rightarrow> int \<Rightarrow> unit io" where
  "write_block b sz pos s =
     (if pos \<noteq> INVALID_POSITION \<and> pos < 0 then throw WRITE_ERROR s
      else
        let p = (if pos = INVALID_POSITION then m_filePos s else pos)
        in (Some (), s\<lparr>m_disk := (m_disk s)(p := Some b), m_filePos := p + int sz,
                        m_fileSize := max (m_fileSize s) (p + int sz)\<rparr>))"

definition read_block :: "nat \<Rightarrow> int \<Rightarrow> disk_block io" where
  "read_block sz pos s =
     (if pos \<noteq> INVALID_POSITION \<and> pos < 0 then throw READ_ERROR s
      else
        let p = (if pos = INVALID_POSITION then m_filePos s else pos)
        in case m_disk s p of
             None \<Rightarrow> outside_model s
           | Some b \<Rightarrow> (Some b, s\<lparr>m_filePos := p + int sz\<rparr>))"

text \<open>
  \<open>readNode\<close> / \<open>readLeave\<close>: a block that fails the checksum test latches \<open>BAD_DATA\<close>
  and throws.  \<open>writeNode\<close> / \<open>writeLeave\<close> store the checksum and write, so what they
  write passes the test.  Reading as a node what was written as a leaf (or the
  reverse) is outside the store model.
\<close>

definition readNode :: "int \<Rightarrow> node io" where
  "readNode pos s =
     bindM (read_block (getNodeSize (ctx_of s)) pos)
       (\<lambda>b. case b of NodeBlock nd \<Rightarrow> ret nd | Corrupt \<Rightarrow> throw BAD_DATA
                      | LeafBlock _ \<Rightarrow> outside_model) s"

definition writeNode :: "node \<Rightarrow> int \<Rightarrow> unit io" where
  "writeNode nd pos s = write_block (NodeBlock nd) (getNodeSize (ctx_of s)) pos s"

definition readLeave :: "int \<Rightarrow> leaf io" where
  "readLeave pos s =
     bindM (read_block (getLeaveSize (ctx_of s)) pos)
       (\<lambda>b. case b of LeafBlock lf \<Rightarrow> ret lf | Corrupt \<Rightarrow> throw BAD_DATA
                      | NodeBlock _ \<Rightarrow> outside_model) s"

definition writeLeave :: "leaf \<Rightarrow> int \<Rightarrow> unit io" where
  "writeLeave lf pos s = write_block (LeafBlock lf) (getLeaveSize (ctx_of s)) pos s"

section \<open>Free lists and index initialisation\<close>

text \<open>
  \<open>createNodes\<close> / \<open>createLeaves\<close>: append \<open>num\<close> free blocks at the end of the file,
  each pointing at the next, the last at the old free-list head.  The blocks are written
  one after the other at the stream position (\<open>INVALID_POSITION\<close>) after one seek.
\<close>

fun createNodes_loop :: "nat \<Rightarrow> node \<Rightarrow> int \<Rightarrow> (node \<times> int) io" where
  "createNodes_loop 0 tempNode fileSize s = (Some (tempNode, fileSize), s)"
| "createNodes_loop (Suc n) tempNode fileSize s =
     (let fileSize' = fileSize + int (getNodeSize (ctx_of s));
          tempNode' = setNextNode tempNode fileSize'
      in case writeNode tempNode' INVALID_POSITION s of
           (None, s') \<Rightarrow> (None, s')
         | (Some _, s') \<Rightarrow> createNodes_loop n tempNode' fileSize' s')"

definition createNodes :: "int \<Rightarrow> unit io" where
  "createNodes numNodes s =
     (if numNodes \<le> 0 then (Some (), s)
      else
        let fileSize = File_size s;
            tempNode = resetNode (allocateNodeBlock (ctx_of s))
        in bindM (File_seek fileSize) (\<lambda>_.
           bindM (createNodes_loop (nat (numNodes - 1)) tempNode fileSize) (\<lambda>(tempNode1, _).
           bindM (gets getFreeNode) (\<lambda>freeHead.
           bindM (writeNode (setNextNode tempNode1 freeHead) INVALID_POSITION) (\<lambda>_.
           modify (setFreeNode fileSize))))) s)"

fun createLeaves_loop :: "nat \<Rightarrow> leaf \<Rightarrow> int \<Rightarrow> (leaf \<times> int) io" where
  "createLeaves_loop 0 tempLeave fileSize s = (Some (tempLeave, fileSize), s)"
| "createLeaves_loop (Suc n) tempLeave fileSize s =
     (let fileSize' = fileSize + int (getLeaveSize (ctx_of s));
          tempLeave' = setNextLeave tempLeave fileSize'
      in case writeLeave tempLeave' INVALID_POSITION s of
           (None, s') \<Rightarrow> (None, s')
         | (Some _, s') \<Rightarrow> createLeaves_loop n tempLeave' fileSize' s')"

definition createLeaves :: "int \<Rightarrow> unit io" where
  "createLeaves numLeaves s =
     (if numLeaves \<le> 0 then (Some (), s)
      else
        let fileSize = File_size s;
            tempLeave = resetLeave (allocateLeaveBlock (ctx_of s))
        in bindM (File_seek fileSize) (\<lambda>_.
           bindM (createLeaves_loop (nat (numLeaves - 1)) tempLeave fileSize) (\<lambda>(tempLeave1, _).
           bindM (gets getFreeLeave) (\<lambda>freeHead.
           bindM (writeLeave (setNextLeave tempLeave1 freeHead) INVALID_POSITION) (\<lambda>_.
           modify (setFreeLeave fileSize))))) s)"

definition allocateNode :: "int io" where
  "allocateNode =
     bindM (gets getFreeNode) (\<lambda>nodePos0.
     bindM (if nodePos0 = INVALID_POSITION
            then bindM (gets getFreeCreateNodes) (\<lambda>n. bindM (createNodes n) (\<lambda>_. gets getFreeNode))
            else ret nodePos0) (\<lambda>nodePos.
     bindM (readNode nodePos) (\<lambda>tempNode.
     bindM (modify (setFreeNode (getNextNode tempNode))) (\<lambda>_.
     ret nodePos))))"

definition allocateLeave :: "int io" where
  "allocateLeave =
     bindM (gets getFreeLeave) (\<lambda>leavePos0.
     bindM (if leavePos0 = INVALID_POSITION
            then bindM (gets getFreeCreateLeaves) (\<lambda>n. bindM (createLeaves n) (\<lambda>_. gets getFreeLeave))
            else ret leavePos0) (\<lambda>leavePos.
     bindM (readLeave leavePos) (\<lambda>tempLeave.
     bindM (modify (setFreeLeave (getNextLeave tempLeave))) (\<lambda>_.
     ret leavePos))))"

definition freeNode :: "int \<Rightarrow> unit io" where
  "freeNode nodePos =
     bindM (gets (\<lambda>s. setNextNode (resetNode (allocateNodeBlock (ctx_of s))) (getFreeNode s)))
       (\<lambda>tempNode.
     bindM (writeNode tempNode nodePos) (\<lambda>_.
     modify (setFreeNode nodePos)))"

definition freeLeave :: "int \<Rightarrow> unit io" where
  "freeLeave leavePos =
     bindM (gets (\<lambda>s. setNextLeave (resetLeave (allocateLeaveBlock (ctx_of s))) (getFreeLeave s)))
       (\<lambda>tempLeave.
     bindM (writeLeave tempLeave leavePos) (\<lambda>_.
     modify (setFreeLeave leavePos)))"

definition writeNewNode :: "node \<Rightarrow> int io" where
  "writeNewNode nd = bindM allocateNode (\<lambda>nodePos. bindM (writeNode nd nodePos) (\<lambda>_. ret nodePos))"

definition writeNewLeave :: "leaf \<Rightarrow> int io" where
  "writeNewLeave lf =
     bindM allocateLeave (\<lambda>leavePos. bindM (writeLeave lf leavePos) (\<lambda>_. ret leavePos))"

text \<open>\<open>createFirstNode\<close>: the EOF sentinel leaf and a root node with one entry for it.\<close>

definition createFirstNode :: "unit io" where
  "createFirstNode =
     bindM (gets ctx_of) (\<lambda>c.
     let leave = setDataPos (setPrevLeave (setNextLeave
                   ((allocateLeaveBlock c)\<lparr>l_key := put_bytes (l_key (allocateLeaveBlock c)) 0
                                                      (fillEOFKey c)\<rparr>)
                   INVALID_POSITION) INVALID_POSITION) INVALID_POSITION
     in
     bindM (writeNewLeave leave) (\<lambda>leavePos.
     bindM (modify (setFirstLeave leavePos)) (\<lambda>_.
     bindM (modify (setLastLeave leavePos)) (\<lambda>_.
     let node0 = setNumItems (resetNode (allocateNodeBlock c)) 1;
         node1 = setChildPos (setNodeKey c node0 1 (fillEOFKey c)) 1 leavePos
     in
     bindM (writeNewNode node1) (\<lambda>nodePos.
     modify (setRootNode nodePos))))))"

text \<open>
  The creating constructor \<open>MultiIndex(filename, numIndexes)\<close> on a fresh file: it
  writes the 3-byte header and \<open>numIndexes\<close> descriptors of 67 bytes.
\<close>

definition empty_info :: IndexInfo where
  "empty_info = \<lparr>ii_attributes = 0, ii_keyType = 0, ii_keySize = 0, ii_maxItems = 0,
     ii_freeCreateNodes = 0, ii_freeCreateLeaves = 0, ii_freeNode = INVALID_POSITION,
     ii_freeLeave = INVALID_POSITION, ii_numLevels = 0, ii_rootNode = INVALID_POSITION,
     ii_firstLeave = INVALID_POSITION, ii_lastLeave = INVALID_POSITION\<rparr>"

definition empty_position :: PositionInfo where
  "empty_position = \<lparr>pi_state = 0, pi_currentLeave = INVALID_POSITION,
     pi_nextLeave = INVALID_POSITION, pi_prevLeave = INVALID_POSITION,
     pi_currentDataPos = INVALID_POSITION\<rparr>"

definition MultiIndex_create :: "nat \<Rightarrow> MultiIndex" where
  "MultiIndex_create numIndexes =
     \<lparr>m_disk = (\<lambda>_. None), m_fileSize = 3 + 67 * int numIndexes,
      m_filePos = 3 + 67 * int numIndexes, m_errorCode = OK, m_numIndexes = numIndexes,
      m_currentIndex = 0, m_indexInfo = replicate numIndexes empty_info,
      m_positions = replicate numIndexes empty_position\<rparr>"

text \<open>\<open>writeInfo\<close>: the descriptor is rewritten in place; the stream ends behind it.\<close>

definition writeInfo :: "unit io" where
  "writeInfo s = (Some (), s\<lparr>m_filePos := 3 + int (m_currentIndex s) * 67 + 67\<rparr>)"

definition initIndex :: "KeyType \<Rightarrow> nat \<Rightarrow> nat \<Rightarrow> nat \<Rightarrow> int \<Rightarrow> int \<Rightarrow> unit io" where
  "initIndex keyType keySize attributes numItems freeCreateNodes freeCreateLeaves s =
     (if hasError s then (Some (), s)
      else
        bindM (modify (upd_info (\<lambda>i. i\<lparr>ii_attributes := attributes,
                 ii_keyType := keyType_code keyType, ii_keySize := keySize,
                 ii_maxItems := numItems, ii_freeCreateNodes := freeCreateNodes,
                 ii_freeCreateLeaves := freeCreateLeaves, ii_freeNode := INVALID_POSITION,
                 ii_freeLeave := INVALID_POSITION, ii_numLevels := 0,
                 ii_rootNode := INVALID_POSITION\<rparr>))) (\<lambda>_.
        bindM writeInfo (\<lambda>_.
        bindM (createNodes freeCreateNodes) (\<lambda>_.
        bindM (createLeaves freeCreateLeaves) (\<lambda>_.
        bindM createFirstNode (\<lambda>_.
        modify (setNumLevels 1)))))) s)"

text \<open>\<open>setActiveIndex\<close> and \<open>getActiveIndex\<close>; both index numbers are \<open>uint16_t\<close>.\<close>

definition setActiveIndex :: "nat \<Rightarrow> MultiIndex \<Rightarrow> MultiIndex" where
  "setActiveIndex indexNo s =
     (if hasError s then s
      else if indexNo > 0 \<and> indexNo \<le> m_numIndexes s then s\<lparr>m_currentIndex := indexNo - 1\<rparr>
      else s\<lparr>m_currentIndex := 0\<rparr>)"

definition getActiveIndex :: "MultiIndex \<Rightarrow> nat" where
  "getActiveIndex s = (m_currentIndex s + 1) mod 65536"

section \<open>Cursor\<close>

text \<open>\<open>PositionState\<close>: END\_OF\_FILE = 1, BEGIN\_OF\_FILE = 2, in a \<open>uint16_t\<close>.\<close>

definition setEOF :: "MultiIndex \<Rightarrow> MultiIndex" where
  "setEOF = upd_pos (\<lambda>p. p\<lparr>pi_state := pi_state p OR 1\<rparr>)"

definition resetEOF :: "MultiIndex \<Rightarrow> MultiIndex" where
  "resetEOF = upd_pos (\<lambda>p. p\<lparr>pi_state := pi_state p AND 65534\<rparr>)"

definition setBOF :: "MultiIndex \<Rightarrow> MultiIndex" where
  "setBOF = upd_pos (\<lambda>p. p\<lparr>pi_state := pi_state p OR 2\<rparr>)"

definition resetBOF :: "MultiIndex \<Rightarrow> MultiIndex" where
  "resetBOF = upd_pos (\<lambda>p. p\<lparr>pi_state := pi_state p AND 65533\<rparr>)"

definition resetPosition :: "MultiIndex \<Rightarrow> MultiIndex" where
  "resetPosition = upd_pos (\<lambda>p. empty_position)"

definition setPosition :: "int \<Rightarrow> int \<Rightarrow> int \<Rightarrow> int \<Rightarrow> MultiIndex \<Rightarrow> MultiIndex" where
  "setPosition currentLeave nextLeave prevLeave dataPos s =
     (let s1 = upd_pos (\<lambda>p. p\<lparr>pi_currentLeave := currentLeave, pi_nextLeave := nextLeave,
                               pi_prevLeave := prevLeave, pi_currentDataPos := dataPos\<rparr>) s;
          s2 = (if prevLeave = INVALID_POSITION \<or> currentLeave = getFirstLeave s1
                then setBOF s1 else resetBOF s1)
      in if nextLeave = INVALID_POSITION \<or> nextLeave = getLastLeave s2
         then setEOF s2 else resetEOF s2)"

definition setPositionFromLeave :: "int \<Rightarrow> leaf \<Rightarrow> MultiIndex \<Rightarrow> MultiIndex" where
  "setPositionFromLeave leavePos lf =
     setPosition leavePos (getNextLeave lf) (getPrevLeave lf) (getDataPos lf)"

text \<open>
  \<open>bringLeave(leavePos, key)\<close> with \<open>key == nullptr\<close>, as \<open>find\<close> calls it: load the
  leaf, put the cursor on it, return its data position.
\<close>

definition bringLeave :: "int \<Rightarrow> int io" where
  "bringLeave leavePos =
     (if leavePos = INVALID_POSITION then ret INVALID_POSITION
      else
        bindM (readLeave leavePos) (\<lambda>lf.
        bindM (modify (setPositionFromLeave leavePos lf)) (\<lambda>_.
        gets (\<lambda>s. pi_currentDataPos (cur_pos s)))))"

section \<open>Lookup\<close>

text \<open>
  The descent loop of \<open>findLeave\<close> (and, with the same text, of \<open>modifyLeave\<close>):
  \<open>while (levelNo > 1 && nodePos != INVALID_POSITION)\<close>.  It returns the position of
  the bottom-level node, or \<open>INVALID_POSITION\<close>.
\<close>

function findLeave_loop :: "key \<Rightarrow> int \<Rightarrow> nat \<Rightarrow> int io" where
  "findLeave_loop k nodePos levelNo s =
     (if levelNo > 1 \<and> nodePos \<noteq> INVALID_POSITION then
        (case readNode nodePos s of
           (None, s') \<Rightarrow> (None, s')
         | (Some nd, s') \<Rightarrow>
             (let numItems = getNumItems nd;
                  keyNo = fst (binarySearchNode (ctx_of s') nd k numItems)
              in if keyNo \<le> numItems
                 then findLeave_loop k (getChildPos nd keyNo) (levelNo - 1) s'
                 else (Some INVALID_POSITION, s')))
      else (Some nodePos, s))"
  by pat_completeness auto
termination
  by (relation "measure (\<lambda>(k, nodePos, levelNo, s). levelNo)") auto

text \<open>
  \<open>findLeave\<close> returns the exact-match flag and the leaf position it assigned to its
  out-parameter; \<open>None\<close> when it left the out-parameter unassigned.
\<close>

definition findLeave :: "key \<Rightarrow> (bool \<times> int option) io" where
  "findLeave k s =
     (let levelNo = getNumLevels s
      in if levelNo < 1 then (Some (False, Some INVALID_POSITION), s)
         else
           bindM (findLeave_loop k (getRootNode s) levelNo) (\<lambda>nodePos.
             if nodePos \<noteq> INVALID_POSITION then
               bindM (readNode nodePos) (\<lambda>nd.
               bindM (gets ctx_of) (\<lambda>c.
                 let numItems = getNumItems nd;
                     r = binarySearchNode c nd k numItems
                 in if fst r \<le> numItems then ret (snd r, Some (getChildPos nd (fst r)))
                    else ret (False, Some INVALID_POSITION)))
             else ret (False, None)) s)"

text \<open>\<open>MultiIndex::find\<close>.  Its local \<open>leavePos\<close> is uninitialised until \<open>findLeave\<close> assigns it.\<close>

definition find :: "key \<Rightarrow> int io" where
  "find k s =
     (if hasError s then (Some INVALID_POSITION, s)
      else
        bindM (findLeave k) (\<lambda>(found, assigned).
          case assigned of
            None \<Rightarrow> outside_model
          | Some leavePos \<Rightarrow>
              if found then bringLeave leavePos
              else if leavePos \<noteq> INVALID_POSITION
                   then bindM (bringLeave leavePos) (\<lambda>_. ret INVALID_POSITION)
                   else ret INVALID_POSITION) s)"

section \<open>Descent with a path stack\<close>

text \<open>
  An operation whose loop has no bound in the source returns \<open>None\<close> when the loop
  does not end, and otherwise \<open>Some\<close> of what an \<open>io\<close> operation returns.
\<close>

type_synonym 'a dio = "MultiIndex \<Rightarrow> ('a option \<times> MultiIndex) option"

definition liftD :: "'a io \<Rightarrow> 'a dio" where
  "liftD m s = Some (m s)"

definition bindD :: "'a dio \<Rightarrow> ('a \<Rightarrow> 'b dio) \<Rightarrow> 'b dio" where
  "bindD m f s =
     (case m s of None \<Rightarrow> None | Some (None, s') \<Rightarrow> Some (None, s') | Some (Some x, s') \<Rightarrow> f x s')"

text \<open>
  The loop of \<open>findPath\<close>: \<open>while (nodePos != INVALID_POSITION)\<close>.  The stack is a list
  with its top first.  \<open>remainLevels\<close> is a \<open>uint16_t\<close>, so \<open>--remainLevels\<close> wraps.
\<close>

partial_function (option) findPath_loop ::
  "key \<Rightarrow> (int \<times> nat) list \<Rightarrow> int \<Rightarrow> int \<Rightarrow> nat \<Rightarrow> bool \<Rightarrow> MultiIndex
   \<Rightarrow> (((int \<times> nat) list \<times> int \<times> nat) option \<times> MultiIndex) option" where
  "findPath_loop k stack lastLevelChild nodePos remainLevels notFirstLevel s =
     (if nodePos = INVALID_POSITION then Some (Some (stack, lastLevelChild, remainLevels), s)
      else
        case readNode nodePos s of
          (None, s1) \<Rightarrow> Some (None, s1)
        | (Some nd, s1) \<Rightarrow>
            if notFirstLevel \<or> getNumItems nd > 1 then
              (if fst (binarySearchNode (ctx_of s1) nd k (getNumItems nd)) \<le> getNumItems nd then
                 (if (remainLevels + 65535) mod 65536 = 0 then
                    findPath_loop k
                      ((nodePos, if snd (binarySearchNode (ctx_of s1) nd k (getNumItems nd))
                                 then fst (binarySearchNode (ctx_of s1) nd k (getNumItems nd))
                                 else 0) # stack)
                      (getChildPos nd (fst (binarySearchNode (ctx_of s1) nd k (getNumItems nd))))
                      INVALID_POSITION ((remainLevels + 65535) mod 65536) True s1
                  else
                    findPath_loop k
                      ((nodePos, fst (binarySearchNode (ctx_of s1) nd k (getNumItems nd))) # stack)
                      lastLevelChild
                      (getChildPos nd (fst (binarySearchNode (ctx_of s1) nd k (getNumItems nd))))
                      ((remainLevels + 65535) mod 65536) True s1)
               else findPath_loop k [] INVALID_POSITION INVALID_POSITION remainLevels True s1)
            else if getNumLevels s1 > 1 then
              (case freeNode nodePos s1 of
                 (None, s2) \<Rightarrow> Some (None, s2)
               | (Some _, s2) \<Rightarrow>
                   findPath_loop k stack lastLevelChild (getChildPos nd 1)
                     ((remainLevels + 65535) mod 65536) notFirstLevel
                     (decNumLevels (setRootNode (getChildPos nd 1) s2)))
            else
              findPath_loop k ((nodePos, 0) # stack) (getChildPos nd 1) INVALID_POSITION
                ((remainLevels + 65535) mod 65536) notFirstLevel s1)"

text \<open>
  \<open>findPath\<close> returns its result, the stack and \<open>lastLevelChild\<close>.  The out-parameter
  is uninitialised in the callers; it is assigned on every path that returns true, and
  the callers do not read it otherwise, so the model starts it at \<open>INVALID_POSITION\<close>.
\<close>

definition findPath :: "key \<Rightarrow> (bool \<times> (int \<times> nat) list \<times> int) dio" where
  "findPath k s =
     (if getRootNode s = INVALID_POSITION then Some (Some (False, [], INVALID_POSITION), s)
      else
        case findPath_loop k [] INVALID_POSITION (getRootNode s) (getNumLevels s) False s of
          None \<Rightarrow> None
        | Some (None, s') \<Rightarrow> Some (None, s')
        | Some (Some (stack, lastLevelChild, remainLevels), s') \<Rightarrow>
            Some (Some (remainLevels = 0 \<and> stack \<noteq> [], stack, lastLevelChild), s'))"

section \<open>Insertion\<close>

text \<open>C integer division by 2 (towards zero) and the conversion to \<open>uint16_t\<close>.\<close>

definition c_div2 :: "int \<Rightarrow> int" where
  "c_div2 x = (if x \<ge> 0 then x div 2 else - ((- x) div 2))"

definition to_u16 :: "int \<Rightarrow> nat" where
  "to_u16 x = nat (x mod 65536)"

text \<open>The balancing loop \<open>while (toMove > 0)\<close>: the last item of \<open>node\<close> goes to the front of the other node.\<close>

fun move_to_next :: "key_ctx \<Rightarrow> nat \<Rightarrow> node \<Rightarrow> node \<Rightarrow> node \<times> node" where
  "move_to_next c 0 nd nx = (nd, nx)"
| "move_to_next c (Suc n) nd nx =
     (let srcNum = getNumItems nd;
          nx' = insertItem c nx 1 (getNodeKey nd srcNum) (getChildPos nd srcNum);
          nd' = deleteItem nd srcNum
      in move_to_next c n nd' nx')"

text \<open>
  \<open>insertKey\<close> returns its state (1, 2 or 3) with the out-parameters \<open>parentKey\<close>,
  \<open>additionalKey\<close> and \<open>additionalChildPos\<close>.  The part that redistributes into the
  next sibling:
\<close>

definition insertKey_redistribute ::
  "key_ctx \<Rightarrow> bool \<Rightarrow> int \<Rightarrow> node \<Rightarrow> int \<Rightarrow> node \<Rightarrow> nat \<Rightarrow> nat \<Rightarrow> key \<Rightarrow> int
   \<Rightarrow> (nat \<times> key \<times> key \<times> int) io" where
  "insertKey_redistribute c canDel nodePos nd nextNodePos nextNode keyNo numItems newKey newChildPos =
     (let (nd1, nx1) =
            (if keyNo \<le> numItems
             then (insertItem c (deleteItem nd numItems) keyNo newKey newChildPos,
                   insertItem c nextNode 1 (getNodeKey nd numItems) (getChildPos nd numItems))
             else (nd, insertItem c nextNode 1 newKey newChildPos));
          (nd2, nx2) =
            (if canDel
             then move_to_next c (to_u16 (c_div2 (int (getNumItems nd1) - int (getNumItems nx1)))) nd1 nx1
             else (nd1, nx1));
          parentKey = fixk (getKeySize c) (getNodeKey nd2 (getNumItems nd2))
      in bindM (writeNode nd2 nodePos) (\<lambda>_.
         bindM (writeNode nx2 nextNodePos) (\<lambda>_.
         ret (2, parentKey, [], INVALID_POSITION))))"

text \<open>The part that creates a new sibling node:\<close>

definition insertKey_split ::
  "key_ctx \<Rightarrow> bool \<Rightarrow> int \<Rightarrow> node \<Rightarrow> int \<Rightarrow> nat \<Rightarrow> nat \<Rightarrow> key \<Rightarrow> int
   \<Rightarrow> (nat \<times> key \<times> key \<times> int) io" where
  "insertKey_split c canDel nodePos nd nextNodePos keyNo numItems newKey newChildPos =
     (let newNode0 = resetNode (allocateNodeBlock c);
          (nd1, nw1) =
            (if keyNo \<le> numItems
             then (deleteItem nd numItems,
                   insertItem c
                     (insertItem c newNode0 1 (getNodeKey nd numItems) (getChildPos nd numItems))
                     keyNo newKey newChildPos)
             else (nd, insertItem c newNode0 1 newKey newChildPos));
          (nd2, nw2) =
            (if canDel
             then move_to_next c (to_u16 (c_div2 (int (getNumItems nd1) - 1))) nd1 nw1
             else (nd1, nw1));
          nw3 = setPrevNode (setNextNode nw2 nextNodePos) nodePos
      in bindM (writeNewNode nw3) (\<lambda>newNodePos.
         let nd3 = setNextNode nd2 newNodePos
         in
         bindM (if nextNodePos \<noteq> INVALID_POSITION
                then bindM (readNode nextNodePos) (\<lambda>nextNode.
                       writeNode (setPrevNode nextNode newNodePos) nextNodePos)
                else ret ()) (\<lambda>_.
         bindM (writeNode nd3 nodePos) (\<lambda>_.
         ret (3, fixk (getKeySize c) (getNodeKey nd3 (getNumItems nd3)),
                 fixk (getKeySize c) (getNodeKey nw3 (getNumItems nw3)), newNodePos)))))"

definition insertKey :: "int \<Rightarrow> key \<Rightarrow> int \<Rightarrow> nat \<Rightarrow> key \<Rightarrow> (nat \<times> key \<times> key \<times> int) io" where
  "insertKey nodePos newKey newChildPos changedKeyNo changedKeyVal =
     bindM (readNode nodePos) (\<lambda>node0.
     bindM (gets ctx_of) (\<lambda>c.
     bindM (gets getMaxItems) (\<lambda>maxItems.
     bindM (gets canDelete) (\<lambda>canDel.
       let nd = (if changedKeyNo \<noteq> 0 \<and> changedKeyVal \<noteq> []
                 then setNodeKey c node0 changedKeyNo changedKeyVal else node0);
           numItems = getNumItems nd;
           keyNo = fst (binarySearchNode c nd newKey numItems);
           exactMatch = snd (binarySearchNode c nd newKey numItems)
       in
         if exactMatch then
           bindM (writeNode (setChildPos nd keyNo newChildPos) nodePos) (\<lambda>_.
           ret (1, [], [], INVALID_POSITION))
         else if numItems < maxItems then
           bindM (writeNode (insertItem c nd keyNo newKey newChildPos) nodePos) (\<lambda>_.
           if keyNo \<le> numItems then ret (1, [], [], INVALID_POSITION)
           else ret (2, fixk (getKeySize c) newKey, [], INVALID_POSITION))
         else
           bindM (if getNextNode nd \<noteq> INVALID_POSITION
                  then bindM (readNode (getNextNode nd)) (\<lambda>nextNode.
                         ret (if getNumItems nextNode < maxItems then Some nextNode else None))
                  else ret None) (\<lambda>room.
           case room of
             Some nextNode \<Rightarrow>
               insertKey_redistribute c canDel nodePos nd (getNextNode nd) nextNode keyNo numItems
                 newKey newChildPos
           | None \<Rightarrow>
               insertKey_split c canDel nodePos nd (getNextNode nd) keyNo numItems
                 newKey newChildPos)))))"

text \<open>
  The parent-update loop of state 2, in \<open>append\<close> and in \<open>deleteKeyFromNodes\<close>:
  \<open>if (!stack.empty()) do { pop; readNode; setNodeKey; writeNode }
   while (keyNo == getNumItems(node) && !stack.empty())\<close>.
\<close>

fun update_parents :: "(int \<times> nat) list \<Rightarrow> key \<Rightarrow> unit io" where
  "update_parents [] parentKey s = (Some (), s)"
| "update_parents ((nodePos, keyNo) # stack) parentKey s =
     (case readNode nodePos s of
        (None, s1) \<Rightarrow> (None, s1)
      | (Some nd, s1) \<Rightarrow>
          (case writeNode (setNodeKey (ctx_of s1) nd keyNo parentKey) nodePos s1 of
             (None, s2) \<Rightarrow> (None, s2)
           | (Some _, s2) \<Rightarrow>
               if keyNo = getNumItems nd \<and> stack \<noteq> [] then update_parents stack parentKey s2
               else (Some (), s2)))"

text \<open>The loop of \<open>append\<close> over the states of \<open>insertKey\<close>: \<open>while (nodePos != INVALID_POSITION)\<close>.\<close>

fun append_loop :: "(int \<times> nat) list \<Rightarrow> int \<Rightarrow> key \<Rightarrow> int \<Rightarrow> nat \<Rightarrow> key \<Rightarrow> bool io" where
  "append_loop stack nodePos newKeyBlock newChildPos changedKeyNo changedKeyVal s =
     (if nodePos = INVALID_POSITION then (Some True, s)
      else
        case insertKey nodePos newKeyBlock newChildPos changedKeyNo changedKeyVal s of
          (None, s1) \<Rightarrow> (None, s1)
        | (Some (state, parentKey, additionalKey, additionalChildPos), s1) \<Rightarrow>
            if state = 1 then (Some True, s1)
            else if state = 2 then bindM (update_parents stack parentKey) (\<lambda>_. ret True) s1
            else if state = 3 then
              (case stack of
                 [] \<Rightarrow>
                   (let c = ctx_of s1;
                        root = setChildPos (setNodeKey c
                                 (setChildPos (setNodeKey c
                                    (setNumItems (resetNode (allocateNodeBlock c)) 2)
                                    1 parentKey) 1 nodePos)
                                 2 additionalKey) 2 additionalChildPos
                    in bindM (writeNewNode root) (\<lambda>rootPos.
                       bindM (modify (setRootNode rootPos)) (\<lambda>_.
                       bindM (modify incNumLevels) (\<lambda>_. ret True))) s1)
               | (parentPos, parentKeyNo) # stack' \<Rightarrow>
                   append_loop stack' parentPos additionalKey additionalChildPos parentKeyNo
                     parentKey s1)
            else (Some False, s1))"

text \<open>\<open>MultiIndex::append\<close>.\<close>

definition append :: "key \<Rightarrow> int \<Rightarrow> bool dio" where
  "append newKey newDataPos s =
     (if hasError s then Some (Some False, s)
      else
        bindD (findPath newKey) (\<lambda>(found, stack, nextLeavePos).
          if \<not> found then liftD (ret False)
          else liftD (
            bindM allocateLeave (\<lambda>leavePos.
            bindM (gets ctx_of) (\<lambda>c.
            bindM (readLeave nextLeavePos) (\<lambda>tempLeave.
            let prevLeavePos = getPrevLeave tempLeave;
                newLeave = setDataPos (setLeaveKey c
                             (setPrevLeave (setNextLeave (allocateLeaveBlock c) nextLeavePos)
                                prevLeavePos) newKey) newDataPos
            in
            bindM (writeLeave (setPrevLeave tempLeave leavePos) nextLeavePos) (\<lambda>_.
            bindM (if prevLeavePos \<noteq> INVALID_POSITION
                   then bindM (readLeave prevLeavePos) (\<lambda>prevLeave.
                          writeLeave (setNextLeave prevLeave leavePos) prevLeavePos)
                   else modify (setFirstLeave leavePos)) (\<lambda>_.
            bindM (writeLeave newLeave leavePos) (\<lambda>_.
            bindM (modify (setPositionFromLeave leavePos newLeave)) (\<lambda>_.
            case stack of
              [] \<Rightarrow> outside_model
            | (nodePos, keyNo) # stack' \<Rightarrow>
                if keyNo > 0 then
                  bindM (gets (\<lambda>s. ii_attributes (cur_info s) OR UNIQUE \<noteq> 0)) (\<lambda>isUniqueIdx.
                    if isUniqueIdx then
                      bindM (readLeave nextLeavePos) (\<lambda>nextLeave.
                      bindM (writeLeave (setPrevLeave nextLeave prevLeavePos) nextLeavePos) (\<lambda>_.
                      bindM (if prevLeavePos \<noteq> INVALID_POSITION
                             then bindM (readLeave prevLeavePos) (\<lambda>prevLeave.
                                    writeLeave (setNextLeave prevLeave nextLeavePos) prevLeavePos)
                             else modify (setFirstLeave nextLeavePos)) (\<lambda>_.
                      bindM (freeLeave leavePos) (\<lambda>_.
                      ret False))))
                    else
                      bindM (readNode nodePos) (\<lambda>nd.
                      bindM (writeNode (setChildPos nd keyNo leavePos) nodePos) (\<lambda>_.
                      ret True)))
                else if nodePos = INVALID_POSITION then ret True
                else append_loop stack' nodePos (fixk (getKeySize c) newKey) leavePos 0 []))))))))) s)"

section \<open>Deletion\<close>

text \<open>\<open>MultiIndex::modifyLeave\<close>.\<close>

definition modifyLeave :: "key \<Rightarrow> int \<Rightarrow> int io" where
  "modifyLeave k newLeavePos s =
     (let levelNo = getNumLevels s
      in if levelNo < 1 then (Some INVALID_POSITION, s)
         else
           bindM (findLeave_loop k (getRootNode s) levelNo) (\<lambda>nodePos.
             if nodePos \<noteq> INVALID_POSITION then
               bindM (readNode nodePos) (\<lambda>nd.
               bindM (gets ctx_of) (\<lambda>c.
                 let numItems = getNumItems nd;
                     r = binarySearchNode c nd k numItems
                 in if fst r \<le> numItems \<and> snd r
                    then bindM (writeNode (setChildPos nd (fst r) newLeavePos) nodePos) (\<lambda>_.
                         ret (getChildPos nd (fst r)))
                    else ret INVALID_POSITION))
             else ret INVALID_POSITION) s)"

text \<open>The borrowing loop of \<open>removeKey\<close>: the first item of the next node goes to the end of \<open>node\<close>.\<close>

fun borrow_loop :: "key_ctx \<Rightarrow> nat \<Rightarrow> nat \<Rightarrow> node \<Rightarrow> node \<Rightarrow> node \<times> node" where
  "borrow_loop c 0 numItems nd nx = (nd, nx)"
| "borrow_loop c (Suc n) numItems nd nx =
     (let numItems' = (numItems + 1) mod 65536;
          nd' = insertItem c nd numItems' (getNodeKey nx 1) (getChildPos nx 1);
          nx' = deleteItem nx 1
      in borrow_loop c n numItems' nd' nx')"

text \<open>\<open>MultiIndex::removeKey\<close> returns its state (1, 2 or 3) and the out-parameter \<open>parentKey\<close>.\<close>

definition removeKey :: "int \<Rightarrow> nat \<Rightarrow> (nat \<times> key) io" where
  "removeKey nodePos removeKeyNo =
     bindM (readNode nodePos) (\<lambda>node0.
     bindM (gets ctx_of) (\<lambda>c.
     bindM (gets getMaxItems) (\<lambda>maxItems.
       if removeKeyNo > getNumItems node0 \<or> removeKeyNo < 1 then ret (1, [])
       else
         let nd = deleteItem node0 removeKeyNo;
             lastChanged = (removeKeyNo = getNumItems node0);
             numItems = getNumItems node0 - 1;
             nextNodePos = getNextNode nd;
             prevNodePos = getPrevNode nd;
             finish = (\<lambda>changed ndF.
               if changed then ret (2, fixk (getKeySize c) (getNodeKey ndF (getNumItems ndF)))
               else ret (1, []))
         in
           if numItems \<noteq> 0 then
             (if nextNodePos \<noteq> INVALID_POSITION then
                bindM (readNode nextNodePos) (\<lambda>nextNode.
                  if int (getNumItems nextNode) + int numItems \<le> int maxItems div 2 then
                    bindM (if prevNodePos \<noteq> INVALID_POSITION
                           then bindM (readNode prevNodePos) (\<lambda>prevNode.
                                  writeNode (setNextNode prevNode nextNodePos) prevNodePos)
                           else ret ()) (\<lambda>_.
                    bindM (writeNode
                            (setPrevNode
                               (foldl (\<lambda>nx i. insertItem c nx i (getNodeKey nd i) (getChildPos nd i))
                                  nextNode [1..<Suc numItems])
                               prevNodePos) nextNodePos) (\<lambda>_.
                    bindM (freeNode nodePos) (\<lambda>_.
                    ret (3, []))))
                  else if getNumItems nextNode > numItems + 1 then
                    (let (ndB, nxB) =
                           borrow_loop c
                             (to_u16 (c_div2 (int (getNumItems nextNode) - int numItems)))
                             numItems nd nextNode
                     in bindM (writeNode nxB nextNodePos) (\<lambda>_.
                        bindM (writeNode ndB nodePos) (\<lambda>_.
                        finish True ndB)))
                  else bindM (writeNode nd nodePos) (\<lambda>_. finish lastChanged nd))
              else bindM (writeNode nd nodePos) (\<lambda>_. finish lastChanged nd))
           else
             bindM (if nextNodePos \<noteq> INVALID_POSITION
                    then bindM (readNode nextNodePos) (\<lambda>nextNode.
                           writeNode (setPrevNode nextNode prevNodePos) nextNodePos)
                    else ret ()) (\<lambda>_.
             bindM (if prevNodePos \<noteq> INVALID_POSITION
                    then bindM (readNode prevNodePos) (\<lambda>prevNode.
                           writeNode (setNextNode prevNode nextNodePos) prevNodePos)
                    else ret ()) (\<lambda>_.
             bindM (freeNode nodePos) (\<lambda>_.
             ret (3, [])))))))"

text \<open>The loop of \<open>deleteKeyFromNodes\<close> over the states of \<open>removeKey\<close>.\<close>

fun deleteKeyFromNodes_loop :: "(int \<times> nat) list \<Rightarrow> int \<Rightarrow> nat \<Rightarrow> int \<Rightarrow> int io" where
  "deleteKeyFromNodes_loop stack nodePos keyNoToRemove leavePos s =
     (if nodePos = INVALID_POSITION then (Some leavePos, s)
      else
        case removeKey nodePos keyNoToRemove s of
          (None, s1) \<Rightarrow> (None, s1)
        | (Some (state, parentKey), s1) \<Rightarrow>
            if state = 1 then (Some leavePos, s1)
            else if state = 2 then bindM (update_parents stack parentKey) (\<lambda>_. ret leavePos) s1
            else if state = 3 then
              (case stack of
                 [] \<Rightarrow> (Some leavePos, s1)
               | (parentPos, parentKeyNo) # stack' \<Rightarrow>
                   deleteKeyFromNodes_loop stack' parentPos parentKeyNo leavePos s1)
            else (Some INVALID_POSITION, s1))"

definition deleteKeyFromNodes :: "key \<Rightarrow> int dio" where
  "deleteKeyFromNodes k =
     bindD (findPath k) (\<lambda>(found, stack, leavePos).
       if \<not> found then liftD (ret INVALID_POSITION)
       else case stack of
              [] \<Rightarrow> liftD outside_model
            | (nodePos, keyNoToRemove) # stack' \<Rightarrow>
                if keyNoToRemove = 0 then liftD (ret INVALID_POSITION)
                else liftD (deleteKeyFromNodes_loop stack' nodePos keyNoToRemove leavePos))"

text \<open>
  The leaf loop of \<open>deleteKey\<close>:
  \<open>do { freeLeave(tempLeavePos); tempLeavePos = getNextLeave(tempLeave);
        if (tempLeavePos == INVALID_POSITION) break; readLeave(tempLeave, tempLeavePos); }
   while (compare(getLeaveKey(tempLeave), deleteKey) == 0)\<close>.
  It follows the chain for as long as the keys are equal.
\<close>

partial_function (option) deleteKey_loop ::
  "key \<Rightarrow> leaf \<Rightarrow> int \<Rightarrow> MultiIndex \<Rightarrow> ((leaf \<times> int) option \<times> MultiIndex) option" where
  "deleteKey_loop k tempLeave tempLeavePos s =
     (case freeLeave tempLeavePos s of
        (None, s1) \<Rightarrow> Some (None, s1)
      | (Some _, s1) \<Rightarrow>
          if getNextLeave tempLeave = INVALID_POSITION
          then Some (Some (tempLeave, getNextLeave tempLeave), s1)
          else
            case readLeave (getNextLeave tempLeave) s1 of
              (None, s2) \<Rightarrow> Some (None, s2)
            | (Some nextLeave, s2) \<Rightarrow>
                if compare (ctx_of s2) (getLeaveKey nextLeave) k = 0
                then deleteKey_loop k nextLeave (getNextLeave tempLeave) s2
                else Some (Some (nextLeave, getNextLeave tempLeave), s2))"

text \<open>\<open>MultiIndex::deleteKey\<close>.\<close>

definition deleteKey :: "key \<Rightarrow> bool dio" where
  "deleteKey k s =
     (if hasError s then Some (Some False, s)
      else
        bindD (deleteKeyFromNodes k) (\<lambda>leavePos.
          if leavePos = INVALID_POSITION then liftD (ret False)
          else
            bindD (liftD (readLeave leavePos)) (\<lambda>startLeave.
            bindD (deleteKey_loop k startLeave leavePos) (\<lambda>(tempLeave0, tempLeavePos).
            let firstLeavePos = getPrevLeave startLeave;
                tempLeave = setPrevLeave tempLeave0 firstLeavePos
            in liftD (
              bindM (writeLeave tempLeave tempLeavePos) (\<lambda>_.
              bindM (if firstLeavePos \<noteq> INVALID_POSITION
                     then bindM (readLeave firstLeavePos) (\<lambda>firstLeave.
                          bindM (writeLeave (setNextLeave firstLeave tempLeavePos) firstLeavePos) (\<lambda>_.
                          ret (Some (setNextLeave firstLeave tempLeavePos))))
                     else bindM (modify (setFirstLeave tempLeavePos)) (\<lambda>_. ret None)) (\<lambda>firstLeave.
              bindM (gets getLastLeave) (\<lambda>lastLeave.
              bindM (if tempLeavePos \<noteq> lastLeave
                     then modify (setPositionFromLeave tempLeavePos tempLeave)
                     else case firstLeave of
                            Some fl \<Rightarrow> modify (setPositionFromLeave firstLeavePos fl)
                          | None \<Rightarrow> modify resetPosition) (\<lambda>_.
              ret True)))))))) s)"

text \<open>\<open>MultiIndex::deleteCurrent\<close>.\<close>

definition deleteCurrent :: "int dio" where
  "deleteCurrent s =
     (if hasError s then Some (Some INVALID_POSITION, s)
      else if pi_currentLeave (cur_pos s) = INVALID_POSITION
              \<or> pi_currentLeave (cur_pos s) = getLastLeave s
      then Some (Some INVALID_POSITION, s)
      else
        (let currentLeave = pi_currentLeave (cur_pos s);
             prevPos = pi_prevLeave (cur_pos s);
             nextPos = pi_nextLeave (cur_pos s)
         in
         bindD (liftD (readLeave currentLeave)) (\<lambda>deletedLeave.
         bindD (liftD (
                  if prevPos \<noteq> INVALID_POSITION
                  then bindM (readLeave prevPos) (\<lambda>prevLeave.
                       bindM (writeLeave (setNextLeave prevLeave nextPos) prevPos) (\<lambda>_.
                       bindM (gets ctx_of) (\<lambda>c.
                       ret (Some (setNextLeave prevLeave nextPos),
                            compare c (getLeaveKey prevLeave) (getLeaveKey deletedLeave) = 0))))
                  else bindM (modify (setFirstLeave nextPos)) (\<lambda>_. ret (None, False))))
           (\<lambda>(prevLeave, prevEqual).
         bindD (liftD (
                  if nextPos \<noteq> INVALID_POSITION
                  then bindM (readLeave nextPos) (\<lambda>nextLeave.
                       bindM (writeLeave (setPrevLeave nextLeave prevPos) nextPos) (\<lambda>_.
                       bindM (gets ctx_of) (\<lambda>c.
                       ret (Some (setPrevLeave nextLeave prevPos),
                            compare c (getLeaveKey nextLeave) (getLeaveKey deletedLeave) = 0))))
                  else ret (None, False)))
           (\<lambda>(nextLeave, nextEqual).
         bindD (liftD (freeLeave currentLeave)) (\<lambda>_.
         bindD (if \<not> prevEqual
                then (if nextEqual
                      then liftD (bindM (modifyLeave (getLeaveKey deletedLeave) nextPos) (\<lambda>_. ret ()))
                      else bindD (deleteKeyFromNodes (getLeaveKey deletedLeave)) (\<lambda>_. liftD (ret ())))
                else liftD (ret ())) (\<lambda>_.
         liftD (
           bindM (gets getLastLeave) (\<lambda>lastLeave.
           bindM (case (if nextPos \<noteq> INVALID_POSITION \<and> nextPos \<noteq> lastLeave then nextLeave else None) of
                    Some nl \<Rightarrow> modify (setPositionFromLeave nextPos nl)
                  | None \<Rightarrow>
                      (case prevLeave of
                         Some pl \<Rightarrow> modify (setPositionFromLeave prevPos pl)
                       | None \<Rightarrow> modify resetPosition)) (\<lambda>_.
           ret (getDataPos deletedLeave)))))))))) s)"

section \<open>Evaluation on numerals\<close>

text \<open>
  The recursive functions above are defined by patterns on \<open>0\<close> and \<open>Suc\<close>.  The
  following equations restate them for numerals, so that the simplifier evaluates them
  on concrete inputs.
\<close>

lemma replicate_numeral: "replicate (numeral k) x = x # replicate (pred_numeral k) x"
  by (simp add: numeral_eq_Suc)

lemma int_le_numeral:
  "int_le (numeral k) v = nat (v mod 256) # int_le (pred_numeral k) (v div 256)"
  by (simp add: numeral_eq_Suc)

lemma int_le_1: "int_le 1 v = [nat (v mod 256)]"
  by simp

lemma numcmp_numeral:
  "numcmp (numeral k) a b =
     (if byte_at a (pred_numeral k) \<noteq> byte_at b (pred_numeral k)
      then (if byte_at a (pred_numeral k) > byte_at b (pred_numeral k) then 1 else -1)
      else numcmp (pred_numeral k) a b)"
  by (simp add: numeral_eq_Suc)

lemma memcmp_numeral:
  "memcmp (numeral k) a b =
     (if byte0 a \<noteq> byte0 b then (if byte0 a > byte0 b then 1 else -1)
      else memcmp (pred_numeral k) (tl a) (tl b))"
  by (simp add: numeral_eq_Suc)

section \<open>The EOF sentinel key\<close>

text \<open>
  \<open>fillEOFKey\<close> fills the key with 0xFF and then clears bit 7 of one byte: of byte 0
  for NUM\_BLOCK and INTEGER, of byte \<open>keySize - 1\<close> for LONG\_INT.  \<open>compare\<close> loads an
  INTEGER key as a native \<open>int16_t\<close> and scans a NUM\_BLOCK key from byte
  \<open>keySize - 1\<close> down to byte 0, so for both types the byte that decides the order is
  the last one, not byte 0.
\<close>

lemma fillEOFKey_NUM_BLOCK_not_maximum:
  "compare \<lparr>kc_hasError = False, kc_keyType = keyType_code NUM_BLOCK, kc_keySize = 2, kc_maxItems = m\<rparr>
        [255, 255]
        (fillEOFKey \<lparr>kc_hasError = False, kc_keyType = keyType_code NUM_BLOCK, kc_keySize = 2, kc_maxItems = m\<rparr>)
     = 1"
  by (simp add: fillEOFKey_def compare_def getKeyType_def getKeySize_def keyType_of_code_def
        byte_at_def replicate_numeral numcmp_numeral)

lemma fillEOFKey_LONG_INT_bytes:
  "fillEOFKey \<lparr>kc_hasError = False, kc_keyType = keyType_code LONG_INT, kc_keySize = 4, kc_maxItems = m\<rparr>
     = [255, 255, 255, 127]
   \<and> get_i32 [255, 255, 255, 127] = 2147483647"
  by (simp add: fillEOFKey_def getKeyType_def getKeySize_def keyType_of_code_def
        get_i32_def to_signed_def fixk_def replicate_numeral)

text \<open>
  C2 (the EOF sentinel key is the maximum of the comparator order of every key type, with
  the prescribed byte pattern).  The code does not deliver this for INTEGER: on an index
  of type INTEGER with the 2-byte keys that \<open>compare\<close> reads, \<open>fillEOFKey\<close> leaves
  the bytes 7F FF, which \<open>compare\<close> reads as \<open>-129\<close>; the key 0 (bytes 00 00) compares
  greater than the sentinel key.
\<close>

theorem fillEOFKey_INTEGER_not_maximum:
  "fillEOFKey \<lparr>kc_hasError = False, kc_keyType = keyType_code INTEGER, kc_keySize = 2, kc_maxItems = m\<rparr>
     = [127, 255]
   \<and> get_i16 [127, 255] = - 129
   \<and> get_i16 [0, 0] = 0
   \<and> compare \<lparr>kc_hasError = False, kc_keyType = keyType_code INTEGER, kc_keySize = 2, kc_maxItems = m\<rparr>
        [0, 0]
        (fillEOFKey \<lparr>kc_hasError = False, kc_keyType = keyType_code INTEGER, kc_keySize = 2, kc_maxItems = m\<rparr>)
     = 1"
  by (simp add: fillEOFKey_def compare_def getKeyType_def getKeySize_def keyType_of_code_def
        get_i16_def to_signed_def fixk_def sign3_def replicate_numeral)

section \<open>Selecting the active index\<close>

text \<open>\<open>setActiveIndex\<close> starts with \<open>if (hasError()) return;\<close>.\<close>

lemma setActiveIndex_latched: "hasError s \<Longrightarrow> setActiveIndex i s = s"
  by (simp add: setActiveIndex_def)

text \<open>
  On a handle of two indexes with index 2 active and an error latched, neither the
  out-of-range argument 0 nor the in-range argument 1 changes the active index:
  \<open>getActiveIndex\<close> still answers 2.
\<close>

theorem setActiveIndex_latched_counterexample:
  "getActiveIndex (setActiveIndex 0
      ((setActiveIndex 2 (MultiIndex_create 2))\<lparr>m_errorCode := BAD_DATA\<rparr>)) = 2
   \<and> getActiveIndex (setActiveIndex 1
      ((setActiveIndex 2 (MultiIndex_create 2))\<lparr>m_errorCode := BAD_DATA\<rparr>)) = 2"
  by (simp add: setActiveIndex_def getActiveIndex_def MultiIndex_create_def hasError_def)

text \<open>
  C10, amended: on a handle with no latched error and at least one index (the count is a
  \<open>uint16_t\<close>), \<open>setActiveIndex i\<close> selects index \<open>i\<close> when \<open>1 \<le> i \<le> numIndexes\<close>
  and index 1 for every other argument, without latching an error; \<open>getActiveIndex\<close>
  then returns the selected 1-based number, which lies in \<open>[1, numIndexes]\<close>.
\<close>

theorem setActiveIndex_selects:
  assumes "\<not> hasError s" and "1 \<le> m_numIndexes s" and "m_numIndexes s < 65536"
  shows "getActiveIndex (setActiveIndex i s) = (if 1 \<le> i \<and> i \<le> m_numIndexes s then i else 1)
         \<and> 1 \<le> getActiveIndex (setActiveIndex i s)
         \<and> getActiveIndex (setActiveIndex i s) \<le> m_numIndexes s
         \<and> m_errorCode (setActiveIndex i s) = m_errorCode s"
  using assms by (auto simp add: setActiveIndex_def getActiveIndex_def)

theorem setActiveIndex_selects_witness:
  "\<not> hasError (MultiIndex_create 2)
   \<and> getActiveIndex (setActiveIndex 2 (MultiIndex_create 2)) = 2
   \<and> getActiveIndex (setActiveIndex 3 (MultiIndex_create 2)) = 1"
  using setActiveIndex_selects [of "MultiIndex_create 2" 2]
        setActiveIndex_selects [of "MultiIndex_create 2" 3]
  by (simp add: MultiIndex_create_def hasError_def)

end
